theory Spec2Isabelle
  imports Complex_Main "HOL-Library.Word"
begin

section \<open>JavaScript strings and values\<close>

text \<open>
  A JavaScript string is a sequence of UTF-16 code units; \<open>length\<close>, \<open>slice\<close> and
  \<open>trim\<close> work on code units. \<open>ascii\<close> writes a string literal of the source.
\<close>

type_synonym jsstring = "16 word list"

definition ascii :: "string \<Rightarrow> jsstring" where
  "ascii s = map (\<lambda>c. of_nat (of_char c)) s"

text \<open>The code units \<open>String.prototype.trim\<close> strips: WhiteSpace and LineTerminator.\<close>

definition js_whitespace :: "16 word \<Rightarrow> bool" where
  "js_whitespace c \<longleftrightarrow>
     c \<in> set [0x9, 0xA, 0xB, 0xC, 0xD, 0x20, 0xA0, 0x1680,
               0x2000, 0x2001, 0x2002, 0x2003, 0x2004, 0x2005, 0x2006, 0x2007,
               0x2008, 0x2009, 0x200A, 0x2028, 0x2029, 0x202F, 0x205F, 0x3000, 0xFEFF]"

definition trim :: "jsstring \<Rightarrow> jsstring" where
  "trim s = rev (dropWhile js_whitespace (rev (dropWhile js_whitespace s)))"

text \<open>Truthiness of a string, and of a value that may be \<open>null\<close> or \<open>undefined\<close>.\<close>

definition truthy :: "jsstring \<Rightarrow> bool" where
  "truthy s \<longleftrightarrow> s \<noteq> []"

definition truthy_opt :: "jsstring option \<Rightarrow> bool" where
  "truthy_opt v = (case v of None \<Rightarrow> False | Some s \<Rightarrow> truthy s)"

text \<open>\<open>a || b\<close> on strings that may be absent, and \<open>a || null\<close>.\<close>

definition or_else :: "jsstring option \<Rightarrow> jsstring \<Rightarrow> jsstring" where
  "or_else v d = (case v of None \<Rightarrow> d | Some s \<Rightarrow> if truthy s then s else d)"

definition or_null :: "jsstring option \<Rightarrow> jsstring option" where
  "or_null v = (case v of None \<Rightarrow> None | Some s \<Rightarrow> if truthy s then Some s else None)"

fun js_includes :: "jsstring \<Rightarrow> jsstring \<Rightarrow> bool" where
  "js_includes [] sub = (sub = [])"
| "js_includes (c # cs) sub = (take (length sub) (c # cs) = sub \<or> js_includes cs sub)"

text \<open>
  \<open>toLowerCase\<close> on the letters A to Z; the search patterns of the source are ASCII, and
  the case table of the other scripts is not modelled.
\<close>

definition toLowerCase :: "jsstring \<Rightarrow> jsstring" where
  "toLowerCase s = map (\<lambda>c. if 0x41 \<le> c \<and> c \<le> 0x5A then c + 0x20 else c) s"

text \<open>
  A thrown value: an \<open>Error\<close> with its \<open>message\<close> and, for the errors of the vector-store
  client, the text at \<open>data.status.error\<close>.
\<close>

record js_error =
  err_message :: "jsstring option"
  err_data_status_error :: "jsstring option"

section \<open>Retrieval (lib/rag/qdrant-retrieve.js, lib/rag/retrieve.js)\<close>

text \<open>An element of a candidate embedding: a number, \<open>NaN\<close>, or a value that is no number.\<close>

datatype js_elem = Number real | NaN | NonNumber

datatype embedding_val = NonArray | JsArray "js_elem list"

record collection_info =
  collection_name :: jsstring
  isNamedVector :: "bool option"

record search_request =
  req_collection :: jsstring
  req_vector :: "js_elem list"
  req_named :: bool
  req_limit :: nat
  req_filter :: "jsstring option"
  req_timeout :: "nat option"

record search_result =
  res_id :: jsstring
  payload_document_id :: "jsstring option"
  payload_chunk_index :: "nat option"
  payload_chunk_id :: "jsstring option"
  payload_text :: "jsstring option"
  payload_content :: "jsstring option"
  payload_category :: "jsstring option"
  payload_file_name :: "jsstring option"
  score :: "real option"

record chunk =
  ch_id :: jsstring
  ch_document_id :: "jsstring option"
  ch_chunk_index :: "nat option"
  ch_chunk_id :: "jsstring option"
  ch_content :: jsstring
  ch_category :: "jsstring option"
  ch_file_name :: "jsstring option"
  ch_similarity :: "real option"

text \<open>
  The collaborators of the retrieval code: the vector-store client, the collection
  bootstrap, the embedding generator and the search request. Each either throws or
  returns; what they return is not constrained.
\<close>

record qdrant_env =
  env_getQdrantClient :: "js_error + unit"
  env_ensureCollectionOnce :: "js_error + collection_info"
  env_generateQueryEmbedding :: "jsstring \<Rightarrow> js_error + embedding_val"
  env_search :: "search_request \<Rightarrow> js_error + search_result list"

text \<open>The requests a call issues, in order.\<close>

datatype call =
    GetQdrantClient
  | EnsureCollectionOnce
  | GenerateQueryEmbedding jsstring
  | Search search_request
  | GetCollection jsstring

definition invalid_elem :: "js_elem \<Rightarrow> bool" where
  "invalid_elem v = (case v of Number _ \<Rightarrow> False | NaN \<Rightarrow> True | NonNumber \<Rightarrow> True)"

definition invalid_embedding :: "embedding_val \<Rightarrow> bool" where
  "invalid_embedding embedding =
     (case embedding of
        NonArray \<Rightarrow> True
      | JsArray vs \<Rightarrow> length vs \<noteq> 1536 \<or> list_ex invalid_elem vs)"

definition nonzero :: "'a::zero option \<Rightarrow> 'a option" where
  "nonzero v = (case v of None \<Rightarrow> None | Some x \<Rightarrow> if x = 0 then None else Some x)"

definition to_chunk :: "search_result \<Rightarrow> chunk" where
  "to_chunk result =
     \<lparr> ch_id = res_id result,
       ch_document_id = or_null (payload_document_id result),
       ch_chunk_index = nonzero (payload_chunk_index result),
       ch_chunk_id = or_null (payload_chunk_id result),
       ch_content = or_else (payload_text result) (or_else (payload_content result) []),
       ch_category = or_null (payload_category result),
       ch_file_name = or_null (payload_file_name result),
       ch_similarity = nonzero (score result) \<rparr>"

definition index_missing :: "js_error \<Rightarrow> bool" where
  "index_missing filterError =
     (let errorMessage = or_else (err_message filterError) [];
          errorData = or_else (err_data_status_error filterError) [];
          fullErrorText = toLowerCase (errorMessage @ ascii '' '' @ errorData)
      in js_includes fullErrorText (ascii ''index required'') \<or>
         (js_includes fullErrorText (ascii ''index'') \<and> js_includes fullErrorText (ascii ''category'')))"

definition run_search ::
  "qdrant_env \<Rightarrow> collection_info \<Rightarrow> js_elem list \<Rightarrow> nat \<Rightarrow> jsstring option \<Rightarrow>
     (js_error + search_result list) \<times> call list" where
  "run_search env info embedding matchCount category =
     (let named = (isNamedVector info \<noteq> Some False);
          base = \<lparr> req_collection = collection_name info, req_vector = embedding,
                   req_named = named, req_limit = matchCount,
                   req_filter = None, req_timeout = Some 500 \<rparr>
      in if truthy_opt category then
           let filtered = base \<lparr> req_filter := category \<rparr> in
           (case env_search env filtered of
              Inr searchResult \<Rightarrow> (Inr searchResult, [Search filtered])
            | Inl filterError \<Rightarrow>
                if index_missing filterError then
                  let retry = base \<lparr> req_timeout := None \<rparr>
                  in (env_search env retry, [Search filtered, Search retry])
                else (Inl filterError, [Search filtered]))
         else (env_search env base, [Search base]))"

definition retrieveChunksFromQdrant ::
  "qdrant_env \<Rightarrow> jsstring \<Rightarrow> embedding_val option \<Rightarrow> nat \<Rightarrow> jsstring option \<Rightarrow>
     (js_error + chunk list) \<times> call list" where
  "retrieveChunksFromQdrant env query queryEmbedding matchCount category =
     (case env_getQdrantClient env of
        Inl e \<Rightarrow> (Inl e, [GetQdrantClient])
      | Inr _ \<Rightarrow>
     (case env_ensureCollectionOnce env of
        Inl e \<Rightarrow> (Inl e, [GetQdrantClient, EnsureCollectionOnce])
      | Inr collectionInfo \<Rightarrow>
     (case (case queryEmbedding of
              Some given \<Rightarrow> (Inr given, [])
            | None \<Rightarrow> (env_generateQueryEmbedding env query, [GenerateQueryEmbedding query])) of
        (Inl e, generated) \<Rightarrow> (Inl e, [GetQdrantClient, EnsureCollectionOnce] @ generated)
      | (Inr embedding, generated) \<Rightarrow>
          if invalid_embedding embedding
          then (Inr [], [GetQdrantClient, EnsureCollectionOnce] @ generated)
          else
            (case run_search env collectionInfo
                    (case embedding of JsArray vs \<Rightarrow> vs | NonArray \<Rightarrow> [])
                    matchCount category of
               (Inl error, searched) \<Rightarrow>
                 (Inl error, [GetQdrantClient, EnsureCollectionOnce] @ generated @ searched)
             | (Inr searchResult, searched) \<Rightarrow>
                 (Inr (map to_chunk searchResult),
                  [GetQdrantClient, EnsureCollectionOnce] @ generated @ searched @
                  (if searchResult = [] then [GetCollection (collection_name collectionInfo)]
                   else []))))))"

definition retrieveChunks ::
  "qdrant_env \<Rightarrow> jsstring option \<Rightarrow> nat option \<Rightarrow> jsstring option \<Rightarrow>
     (js_error + chunk list) \<times> call list" where
  "retrieveChunks env query matchCount category =
     (case query of
        None \<Rightarrow> (Inr [], [])
      | Some q \<Rightarrow>
          if \<not> truthy q \<or> \<not> truthy (trim q) then (Inr [], [])
          else
            (case retrieveChunksFromQdrant env (trim q) None
                    (case matchCount of None \<Rightarrow> 5 | Some n \<Rightarrow> n) category of
               (Inr chunks, calls) \<Rightarrow> (Inr chunks, calls)
             | (Inl error, calls) \<Rightarrow>
                 if (case err_message error of
                       None \<Rightarrow> False
                     | Some m \<Rightarrow> js_includes m (ascii ''OPENAI_API_KEY'') \<or>
                                 js_includes m (ascii ''API key''))
                 then (Inr [], calls)
                 else (Inr [], calls)))"

subsection \<open>Properties of retrieval\<close>

lemma trim_empty_iff: "trim q = [] \<longleftrightarrow> (\<forall>c\<in>set q. js_whitespace c)"
proof -
  have "trim q = [] \<longleftrightarrow> dropWhile js_whitespace (rev (dropWhile js_whitespace q)) = []"
    by (simp add: trim_def)
  also have "\<dots> \<longleftrightarrow> (\<forall>c\<in>set (dropWhile js_whitespace q). js_whitespace c)"
    by (simp add: dropWhile_eq_Nil_conv)
  also have "\<dots> \<longleftrightarrow> (\<forall>c\<in>set q. js_whitespace c)"
  proof
    assume a: "\<forall>c\<in>set (dropWhile js_whitespace q). js_whitespace c"
    have "dropWhile js_whitespace q = []"
    proof (rule ccontr)
      assume "dropWhile js_whitespace q \<noteq> []"
      then have "\<not> js_whitespace (hd (dropWhile js_whitespace q))"
        by (rule hd_dropWhile)
      moreover have "hd (dropWhile js_whitespace q) \<in> set (dropWhile js_whitespace q)"
        using \<open>dropWhile js_whitespace q \<noteq> []\<close> by simp
      ultimately show False using a by blast
    qed
    then show "\<forall>c\<in>set q. js_whitespace c"
      by (simp add: dropWhile_eq_Nil_conv)
  next
    assume "\<forall>c\<in>set q. js_whitespace c"
    then show "\<forall>c\<in>set (dropWhile js_whitespace q). js_whitespace c"
      using set_dropWhileD by fastforce
  qed
  finally show ?thesis .
qed

lemma retrieveChunks_Inr: "\<exists>chunks. fst (retrieveChunks env query matchCount category) = Inr chunks"
  by (simp add: retrieveChunks_def split: option.split sum.split prod.split)


subsection \<open>Sample environments\<close>

definition store_down :: js_error where
  "store_down = \<lparr> err_message = Some (ascii ''fetch failed''), err_data_status_error = None \<rparr>"

definition model_down :: js_error where
  "model_down = \<lparr> err_message = Some (ascii ''Invalid embedding dimensions: 384''),
                     err_data_status_error = None \<rparr>"

definition sample_info :: collection_info where
  "sample_info = \<lparr> collection_name = ascii ''document_chunks'', isNamedVector = Some True \<rparr>"

definition env_embedding_fails :: qdrant_env where
  "env_embedding_fails =
     \<lparr> env_getQdrantClient = Inr (), env_ensureCollectionOnce = Inr sample_info,
       env_generateQueryEmbedding = (\<lambda>q. Inl model_down),
       env_search = (\<lambda>r. Inr []) \<rparr>"

definition env_short_embedding :: qdrant_env where
  "env_short_embedding =
     \<lparr> env_getQdrantClient = Inr (), env_ensureCollectionOnce = Inr sample_info,
       env_generateQueryEmbedding = (\<lambda>q. Inr (JsArray (replicate 384 (Number 0)))),
       env_search = (\<lambda>r. Inr []) \<rparr>"

definition env_search_fails :: qdrant_env where
  "env_search_fails =
     \<lparr> env_getQdrantClient = Inr (), env_ensureCollectionOnce = Inr sample_info,
       env_generateQueryEmbedding = (\<lambda>q. Inr (JsArray (replicate 1536 (Number 0)))),
       env_search = (\<lambda>r. Inl store_down) \<rparr>"

definition env_bootstrap_fails :: qdrant_env where
  "env_bootstrap_fails =
     \<lparr> env_getQdrantClient = Inr (), env_ensureCollectionOnce = Inl store_down,
       env_generateQueryEmbedding = (\<lambda>q. Inr (JsArray (replicate 1536 (Number 0)))),
       env_search = (\<lambda>r. Inr []) \<rparr>"

lemma retrieveChunks_result:
  "fst (retrieveChunks env (Some q) matchCount category) =
     (if \<not> truthy q \<or> \<not> truthy (trim q) then Inr []
      else case fst (retrieveChunksFromQdrant env (trim q) None
                       (case matchCount of None \<Rightarrow> 5 | Some n \<Rightarrow> n) category) of
             Inl error \<Rightarrow> Inr [] | Inr chunks \<Rightarrow> Inr chunks)"
  by (simp add: retrieveChunks_def split: sum.split prod.split)

lemma inner_client_throws:
  "env_getQdrantClient env = Inl e \<Longrightarrow>
   fst (retrieveChunksFromQdrant env q None n category) = Inl e"
  by (simp add: retrieveChunksFromQdrant_def)

lemma inner_bootstrap_throws:
  "env_ensureCollectionOnce env = Inl e \<Longrightarrow>
   \<exists>e'. fst (retrieveChunksFromQdrant env q None n category) = Inl e'"
  by (simp add: retrieveChunksFromQdrant_def split: sum.split)

lemma inner_embedding_throws:
  "env_generateQueryEmbedding env q = Inl e \<Longrightarrow>
   \<exists>e'. fst (retrieveChunksFromQdrant env q None n category) = Inl e'"
  by (simp add: retrieveChunksFromQdrant_def split: sum.split)

lemma inner_embedding_invalid:
  "env_generateQueryEmbedding env q = Inr embedding \<Longrightarrow> invalid_embedding embedding \<Longrightarrow>
   (\<exists>e'. fst (retrieveChunksFromQdrant env q None n category) = Inl e') \<or>
   fst (retrieveChunksFromQdrant env q None n category) = Inr []"
  by (simp add: retrieveChunksFromQdrant_def split: sum.split)

lemma run_search_throws:
  "\<forall>r. \<exists>e. env_search env r = Inl e \<Longrightarrow>
   \<exists>e'. fst (run_search env info vs n category) = Inl e'"
proof -
  assume a: "\<forall>r. \<exists>e. env_search env r = Inl e"
  have b: "\<And>r xs. env_search env r \<noteq> Inr xs"
  proof
    fix r xs
    assume "env_search env r = Inr xs"
    moreover obtain e where "env_search env r = Inl e" using a by blast
    ultimately show False by simp
  qed
  have c: "\<And>r. \<exists>e. env_search env r = Inl e"
    using a by blast
  show ?thesis
    unfolding run_search_def Let_def
    by (auto simp: b c split: sum.split)
qed

lemma inner_search_throws:
  assumes "\<forall>r. \<exists>e. env_search env r = Inl e"
  shows "(\<exists>e'. fst (retrieveChunksFromQdrant env q None n category) = Inl e') \<or>
         fst (retrieveChunksFromQdrant env q None n category) = Inr []"
proof -
  have rs: "\<And>info vs. \<exists>e'. fst (run_search env info vs n category) = Inl e'"
    using run_search_throws [OF assms] by blast
  show ?thesis
  proof (cases "env_getQdrantClient env")
    case (Inl e)
    then show ?thesis by (simp add: retrieveChunksFromQdrant_def)
  next
    case client: (Inr u)
    show ?thesis
    proof (cases "env_ensureCollectionOnce env")
      case (Inl e)
      then show ?thesis using client by (simp add: retrieveChunksFromQdrant_def)
    next
      case info: (Inr collectionInfo)
      show ?thesis
      proof (cases "env_generateQueryEmbedding env q")
        case (Inl e)
        then show ?thesis using client info by (simp add: retrieveChunksFromQdrant_def)
      next
        case emb: (Inr embedding)
        show ?thesis
        proof (cases "invalid_embedding embedding")
          case True
          then show ?thesis using client info emb by (simp add: retrieveChunksFromQdrant_def)
        next
          case False
          obtain e' where "fst (run_search env collectionInfo
              (case embedding of JsArray vs \<Rightarrow> vs | NonArray \<Rightarrow> []) n category) = Inl e'"
            using rs by blast
          then show ?thesis
            using client info emb False
            by (auto simp: retrieveChunksFromQdrant_def split: prod.split sum.split)
        qed
      qed
    qed
  qed
qed

text \<open>
  Claim C9. For every query, \<open>retrieveChunks\<close> never raises: its result is always a
  list of chunks. An error thrown while the client or the collection is obtained, while
  the embedding is generated or by the vector-store search, and an embedding that is not
  an array of 1536 numbers, all end in the empty list.
\<close>

theorem retrieveChunks_never_raises:
  "(\<exists>chunks. fst (retrieveChunks env query matchCount category) = Inr chunks) \<and>
   (\<forall>q. query = Some q \<and>
        ((\<exists>e. env_getQdrantClient env = Inl e) \<or>
         (\<exists>e. env_ensureCollectionOnce env = Inl e) \<or>
         (\<exists>e. env_generateQueryEmbedding env (trim q) = Inl e) \<or>
         (\<exists>embedding. env_generateQueryEmbedding env (trim q) = Inr embedding \<and>
                       invalid_embedding embedding) \<or>
         (\<forall>r. \<exists>e. env_search env r = Inl e))
      \<longrightarrow> fst (retrieveChunks env query matchCount category) = Inr [])"
proof (intro conjI allI impI)
  show "\<exists>chunks. fst (retrieveChunks env query matchCount category) = Inr chunks"
    by (simp add: retrieveChunks_def split: option.split sum.split prod.split)
next
  fix q
  let ?n = "case matchCount of None \<Rightarrow> 5 | Some n \<Rightarrow> n"
  let ?inner = "fst (retrieveChunksFromQdrant env (trim q) None ?n category)"
  assume a: "query = Some q \<and>
        ((\<exists>e. env_getQdrantClient env = Inl e) \<or>
         (\<exists>e. env_ensureCollectionOnce env = Inl e) \<or>
         (\<exists>e. env_generateQueryEmbedding env (trim q) = Inl e) \<or>
         (\<exists>embedding. env_generateQueryEmbedding env (trim q) = Inr embedding \<and>
                       invalid_embedding embedding) \<or>
         (\<forall>r. \<exists>e. env_search env r = Inl e))"
  then have "(\<exists>e'. ?inner = Inl e') \<or> ?inner = Inr []"
    using inner_client_throws [of env _ "trim q" ?n category]
      inner_bootstrap_throws [of env _ "trim q" ?n category]
      inner_embedding_throws [of env "trim q" _ ?n category]
      inner_embedding_invalid [of env "trim q" _ ?n category]
      inner_search_throws [of env "trim q" ?n category]
    by blast
  then show "fst (retrieveChunks env query matchCount category) = Inr []"
    using a by (auto simp: retrieveChunks_result)
qed

lemma list_ex_replicate: "list_ex P (replicate n x) \<longleftrightarrow> n \<noteq> 0 \<and> P x"
  by (induction n) auto

theorem retrieveChunks_never_raises_witness:
  "fst (retrieveChunks env_embedding_fails (Some (ascii ''fees'')) None None) = Inr [] \<and>
   fst (retrieveChunks env_short_embedding (Some (ascii ''fees'')) None None) = Inr [] \<and>
   fst (retrieveChunks env_search_fails (Some (ascii ''fees'')) None None) = Inr [] \<and>
   fst (retrieveChunks env_bootstrap_fails (Some (ascii ''fees'')) None None) = Inr []"
proof -
  have 1: "\<exists>e. env_generateQueryEmbedding env_embedding_fails (trim (ascii ''fees'')) = Inl e"
    by (simp add: env_embedding_fails_def)
  have 2: "\<exists>embedding. env_generateQueryEmbedding env_short_embedding (trim (ascii ''fees'')) = Inr embedding \<and>
                       invalid_embedding embedding"
    by (simp add: env_short_embedding_def invalid_embedding_def)
  have 3: "\<forall>r. \<exists>e. env_search env_search_fails r = Inl e"
    by (simp add: env_search_fails_def)
  have 4: "\<exists>e. env_ensureCollectionOnce env_bootstrap_fails = Inl e"
    by (simp add: env_bootstrap_fails_def)
  show ?thesis
    using 1 2 3 4
      retrieveChunks_never_raises [of env_embedding_fails "Some (ascii ''fees'')" None None]
      retrieveChunks_never_raises [of env_short_embedding "Some (ascii ''fees'')" None None]
      retrieveChunks_never_raises [of env_search_fails "Some (ascii ''fees'')" None None]
      retrieveChunks_never_raises [of env_bootstrap_fails "Some (ascii ''fees'')" None None]
    by blast
qed

text \<open>
  Claim C10. For a query that is undefined, empty or made of whitespace only,
  \<open>retrieveChunks\<close> returns the empty list and issues no request at all: neither the
  embedding generator nor the vector store is called.
\<close>

theorem retrieveChunks_blank_query:
  assumes "query = None \<or> (\<exists>q. query = Some q \<and> (\<forall>c\<in>set q. js_whitespace c))"
  shows "retrieveChunks env query matchCount category = (Inr [], [])"
  using assms
  by (auto simp: retrieveChunks_def truthy_def trim_empty_iff)

theorem retrieveChunks_blank_query_witness:
  "retrieveChunks env_search_fails None None None = (Inr [], []) \<and>
   retrieveChunks env_search_fails (Some []) None None = (Inr [], []) \<and>
   retrieveChunks env_search_fails (Some [0x20, 0x9, 0xA0]) None None = (Inr [], [])"
proof -
  have w: "\<forall>c\<in>set [0x20, 0x9, 0xA0 :: 16 word]. js_whitespace c"
    by (simp add: js_whitespace_def)
  show ?thesis
    using w
      retrieveChunks_blank_query [of None env_search_fails None None]
      retrieveChunks_blank_query [of "Some []" env_search_fails None None]
      retrieveChunks_blank_query [of "Some [0x20, 0x9, 0xA0]" env_search_fails None None]
    by simp
qed


section \<open>The RAG context endpoint (app/api/assistant/voice/rag-context/route.js)\<close>

definition SIMILARITY_THRESHOLD :: real where
  "SIMILARITY_THRESHOLD = 0.25"

text \<open>Decimal digits of a number, as a template literal prints it.\<close>

fun show_nat :: "nat \<Rightarrow> jsstring" where
  "show_nat n =
     (if n < 10 then [of_nat (48 + n)]
      else show_nat (n div 10) @ [of_nat (48 + n mod 10)])"

fun js_join :: "jsstring \<Rightarrow> jsstring list \<Rightarrow> jsstring" where
  "js_join sep [] = []"
| "js_join sep [x] = x"
| "js_join sep (x # y # ys) = x @ sep @ js_join sep (y # ys)"

definition source_block :: "nat \<Rightarrow> chunk \<Rightarrow> jsstring" where
  "source_block index chunk =
     (let category = or_else (ch_category chunk) (ascii ''General'');
          fileName = or_else (ch_file_name chunk) (ascii ''Unknown'');
          label = ascii ''Source '' @ show_nat (index + 1) @ ascii '' ('' @ category @
                  [0x20, 0x2022, 0x20] @ fileName @ ascii '')''
      in label @ ascii '':\<newline>'' @ or_else (Some (trim (ch_content chunk))) [])"

definition buildContextBlock :: "chunk list \<Rightarrow> jsstring" where
  "buildContextBlock chunks =
     (if chunks = [] then ascii ''No matching knowledge base context was found.''
      else js_join (ascii ''\<newline>\<newline>'')
             (map (\<lambda>(index, chunk). source_block index chunk) (enumerate 0 chunks)))"

text \<open>The JSON body of a response of the endpoint; an absent field is \<open>None\<close>.\<close>

record rag_response =
  resp_context :: "jsstring option"
  resp_instructions :: "jsstring option"
  resp_chunksFound :: "nat option"
  resp_reason :: "jsstring option"
  resp_topSimilarity :: "real option"
  resp_error :: "jsstring option"

definition no_response :: rag_response where
  "no_response = \<lparr> resp_context = None, resp_instructions = None, resp_chunksFound = None,
                     resp_reason = None, resp_topSimilarity = None, resp_error = None \<rparr>"

text \<open>\<open>chunks[0]?.similarity || 0\<close>\<close>

definition topSimilarity :: "chunk list \<Rightarrow> real" where
  "topSimilarity chunks =
     (case chunks of
        [] \<Rightarrow> 0
      | chunk # _ \<Rightarrow> (case ch_similarity chunk of None \<Rightarrow> 0 | Some s \<Rightarrow> s))"

text \<open>
  The handler that defines \<open>SIMILARITY_THRESHOLD\<close>, from the point where
  \<open>retrieveChunks\<close> has returned its list.
\<close>

definition respond :: "chunk list \<Rightarrow> rag_response" where
  "respond chunks =
     (if chunks \<noteq> [] then
        if topSimilarity chunks < SIMILARITY_THRESHOLD then
          no_response \<lparr> resp_context := None, resp_chunksFound := Some 0,
                        resp_reason := Some (ascii ''below_threshold''),
                        resp_topSimilarity := Some (topSimilarity chunks) \<rparr>
        else
          no_response \<lparr> resp_context := Some (buildContextBlock chunks),
                        resp_chunksFound := Some (length chunks) \<rparr>
      else no_response \<lparr> resp_context := None, resp_chunksFound := Some 0 \<rparr>)"

text \<open>The request body, and the whole handler with its status code.\<close>

record rag_request =
  rq_question :: "jsstring option"
  rq_category :: "jsstring option"
  rq_sessionId :: "jsstring option"
  rq_intent :: "jsstring option"
  rq_matchCount :: "nat option"

definition effectiveMatchCount :: "nat option \<Rightarrow> nat" where
  "effectiveMatchCount matchCount =
     max (case matchCount of None \<Rightarrow> 5 | Some n \<Rightarrow> if n = 0 then 5 else n) 1"

definition POST_rag_context :: "qdrant_env \<Rightarrow> rag_request \<Rightarrow> (nat \<times> rag_response) \<times> call list" where
  "POST_rag_context env body =
     (case rq_question body of
        None \<Rightarrow> ((400, no_response \<lparr> resp_error := Some (ascii ''Question is required'') \<rparr>), [])
      | Some question \<Rightarrow>
          if \<not> truthy question \<or> \<not> truthy (trim question)
          then ((400, no_response \<lparr> resp_error := Some (ascii ''Question is required'') \<rparr>), [])
          else
            (case retrieveChunks env (Some (trim question))
                    (Some (effectiveMatchCount (rq_matchCount body))) None of
               (Inr chunks, calls) \<Rightarrow> ((200, respond chunks), calls)
             | (Inl ragError, calls) \<Rightarrow>
                 ((200, no_response \<lparr> resp_context := None, resp_chunksFound := Some 0,
                                      resp_error := err_message ragError \<rparr>), calls)))"

text \<open>
  The other copy of the handler in the repository: it returns the whole instructions with
  the context and defines no similarity threshold. \<open>defaultInstructions\<close> is the system
  prompt; the two instruction texts that the handler appends are its parameters
  \<open>useOnly\<close> and \<open>staySilent\<close>.
\<close>

definition respond_with_instructions ::
  "jsstring \<Rightarrow> jsstring \<Rightarrow> jsstring \<Rightarrow> chunk list \<Rightarrow> rag_response" where
  "respond_with_instructions defaultInstructions useOnly staySilent chunks =
     (if chunks \<noteq> [] then
        let contextBlock = buildContextBlock chunks;
            additionalInstructions =
              ascii ''\<newline>\<newline>=== RELEVANT INFORMATION ===\<newline>'' @ contextBlock @
              ascii ''\<newline>=== END OF INFORMATION ===\<newline>\<newline>'' @ useOnly
        in no_response \<lparr> resp_context := Some contextBlock,
                         resp_instructions := Some (defaultInstructions @ additionalInstructions),
                         resp_chunksFound := Some (length chunks) \<rparr>
      else
        no_response \<lparr> resp_context := None,
                      resp_instructions :=
                        Some (defaultInstructions @ ascii ''\<newline>\<newline>'' @ staySilent),
                      resp_chunksFound := Some 0 \<rparr>)"


section \<open>The voice chat component (components/VoiceChat.jsx)\<close>

datatype ready_state = Connecting | Open | Closing | Closed

datatype role = User | Assistant

text \<open>What the component sends on the data channel.\<close>

datatype outbound =
    SessionUpdate jsstring
  | ConversationItemCreate role jsstring

text \<open>A pending \<open>setTimeout\<close>: the callback and its delay in milliseconds.\<close>

text \<open>
  The callbacks: the reconnect of retry attempt \<open>k\<close>, the greeting trigger, and
  \<open>sendGreeting\<close> itself with the \<open>enableAudio\<close> its closure captured.
\<close>

datatype callback = RetryConnect nat | GreetingTrigger | SendGreeting bool

record timer =
  tm_callback :: callback
  tm_delay :: nat

record message =
  msg_role :: role
  msg_content :: jsstring

text \<open>
  The refs and the state of the component that the claims speak about, together with the
  effects it has on the outside: the messages sent on the data channel, the requests to the
  context endpoint, the pending timers, the conversations saved and the conversations
  reported as ended.
\<close>

record voice_chat =
  prewarmCacheRef :: "jsstring \<rightharpoonup> rag_response"
  prewarmAbortRef :: bool
  pcRef :: bool
  streamRef :: bool
  dataChannelRef :: "ready_state option"
  currentUserMessageRef :: jsstring
  currentAssistantMessageRef :: jsstring
  hasGreetedRef :: bool
  conversationMessagesRef :: "message list"
  retryCountRef :: nat
  retryTimeoutRef :: "timer option"
  listenersRef :: bool
  speechRecognitionRef :: bool
  isConnected :: bool
  isConnecting :: bool
  isRecording :: bool
  isPlaying :: bool
  error :: "jsstring option"
  currentAssistantMessage :: jsstring
  interimTranscript :: jsstring
  conversationMessages :: "message list"
  sessionId :: "jsstring option"
  sent :: "outbound list"
  fetched :: "rag_request list"
  timers :: "timer list"
  saved :: "(jsstring \<times> message list) list"
  ended :: "(message list \<times> jsstring option) list"

text \<open>What a \<open>fetch\<close> of the context endpoint ends in.\<close>

datatype fetch_outcome =
    FetchFailed
  | FetchResponse bool rag_response

text \<open>The long prompt texts of the source are parameters of the model.\<close>

record prompt_texts =
  ISHU_VOICE_PROMPT :: jsstring
  prewarmedPrefix :: jsstring
  prewarmedSuffix :: jsstring
  contextSuffix :: jsstring
  greetingSuffix :: jsstring

definition cache_key :: "jsstring option \<Rightarrow> jsstring option \<Rightarrow> jsstring \<Rightarrow> jsstring" where
  "cache_key capturedSessionId capturedCategory trimmed =
     or_else capturedSessionId (ascii ''anon'') @ ascii ''::'' @
     or_else capturedCategory (ascii ''general'') @ ascii ''::'' @ take 100 trimmed"

definition context_request ::
  "jsstring option \<Rightarrow> jsstring option \<Rightarrow> jsstring \<Rightarrow> rag_request" where
  "context_request capturedSessionId capturedCategory trimmed =
     \<lparr> rq_question = Some trimmed, rq_category = capturedCategory, rq_sessionId = capturedSessionId,
       rq_intent = Some (or_else capturedCategory (ascii ''general'')), rq_matchCount = Some 3 \<rparr>"

definition channel_open :: "voice_chat \<Rightarrow> bool" where
  "channel_open s \<longleftrightarrow> dataChannelRef s = Some Open"

definition prewarmContext ::
  "(rag_request \<Rightarrow> fetch_outcome) \<Rightarrow> jsstring option \<Rightarrow> jsstring option \<Rightarrow>
     jsstring option \<Rightarrow> voice_chat \<Rightarrow> voice_chat" where
  "prewarmContext fetch capturedSessionId capturedCategory question s =
     (case question of
        None \<Rightarrow> s
      | Some q \<Rightarrow>
          if \<not> truthy q \<or> \<not> truthy (trim q) then s
          else if \<not> channel_open s then s
          else
            let trimmed = trim q;
                key = cache_key capturedSessionId capturedCategory trimmed
            in if prewarmCacheRef s key \<noteq> None then s
               else
                 let request = context_request capturedSessionId capturedCategory trimmed;
                     s1 = s \<lparr> fetched := fetched s @ [request] \<rparr>
                 in (case fetch request of
                       FetchFailed \<Rightarrow> s1 \<lparr> prewarmAbortRef := False \<rparr>
                     | FetchResponse ok data \<Rightarrow>
                         if \<not> ok then s1 \<lparr> prewarmAbortRef := False \<rparr>
                         else s1 \<lparr> prewarmCacheRef := (prewarmCacheRef s1)(key \<mapsto> data),
                                   prewarmAbortRef := False \<rparr>))"

definition positive :: "nat option \<Rightarrow> bool" where
  "positive n = (case n of None \<Rightarrow> False | Some k \<Rightarrow> k > 0)"

definition fetchAndSendContext ::
  "prompt_texts \<Rightarrow> (rag_request \<Rightarrow> fetch_outcome) \<Rightarrow> jsstring option \<Rightarrow> jsstring option \<Rightarrow>
     jsstring option \<Rightarrow> voice_chat \<Rightarrow> voice_chat" where
  "fetchAndSendContext texts fetch capturedSessionId capturedCategory question s =
     (if \<not> channel_open s then s
      else case question of
        None \<Rightarrow> s
      | Some q \<Rightarrow>
          if \<not> truthy q \<or> \<not> truthy (trim q) then s
          else
            let key = cache_key capturedSessionId capturedCategory (trim q);
                prewarmed = prewarmCacheRef s key
            in if (case prewarmed of None \<Rightarrow> False | Some d \<Rightarrow> truthy_opt (resp_context d))
               then
                 s \<lparr> sent := sent s @
                        [ConversationItemCreate Assistant
                           (prewarmedPrefix texts @
                            or_else (case prewarmed of None \<Rightarrow> None | Some d \<Rightarrow> resp_context d) [] @
                            prewarmedSuffix texts)] \<rparr>
               else
                 let request = context_request capturedSessionId capturedCategory (trim q);
                     s1 = s \<lparr> fetched := fetched s @ [request] \<rparr>
                 in (case fetch request of
                       FetchFailed \<Rightarrow> s1
                     | FetchResponse ok data \<Rightarrow>
                         if \<not> ok then s1
                         else if positive (resp_chunksFound data) \<and> truthy_opt (resp_context data)
                         then
                           s1 \<lparr> sent := sent s1 @
                                  [ConversationItemCreate Assistant
                                     (if truthy_opt (resp_instructions data)
                                      then or_else (resp_instructions data) []
                                      else ISHU_VOICE_PROMPT texts @
                                           ascii ''\<newline>\<newline>=== RELEVANT INFORMATION ===\<newline>'' @
                                           or_else (resp_context data) [] @
                                           ascii ''\<newline>=== END OF INFORMATION ===\<newline>\<newline>'' @
                                           contextSuffix texts)] \<rparr>
                         else s1))"


subsection \<open>Sample inputs\<close>

definition initial_chat :: voice_chat where
  "initial_chat =
     \<lparr> prewarmCacheRef = Map.empty, prewarmAbortRef = False, pcRef = False, streamRef = False,
       dataChannelRef = None, currentUserMessageRef = [], currentAssistantMessageRef = [],
       hasGreetedRef = False, conversationMessagesRef = [], retryCountRef = 0,
       retryTimeoutRef = None, listenersRef = False, speechRecognitionRef = False,
       isConnected = False, isConnecting = False, isRecording = False, isPlaying = False,
       error = None, currentAssistantMessage = [], interimTranscript = [],
       conversationMessages = [], sessionId = None,
       sent = [], fetched = [], timers = [], saved = [], ended = [] \<rparr>"

definition open_chat :: voice_chat where
  "open_chat = initial_chat \<lparr> pcRef := True, streamRef := True, dataChannelRef := Some Open,
                               isConnected := True \<rparr>"

definition sample_texts :: prompt_texts where
  "sample_texts = \<lparr> ISHU_VOICE_PROMPT = ascii ''You are Ishu.'', prewarmedPrefix = ascii ''<'',
                      prewarmedSuffix = ascii ''>'', contextSuffix = ascii ''Use ONLY this.'',
                      greetingSuffix = ascii ''Greet the user.'' \<rparr>"

definition fees_chunk :: chunk where
  "fees_chunk = \<lparr> ch_id = ascii ''p1'', ch_document_id = None, ch_chunk_index = None,
                   ch_chunk_id = None, ch_content = ascii ''Fees: 8 lakhs'',
                   ch_category = None, ch_file_name = None, ch_similarity = Some 0.61 \<rparr>"

definition weather_chunk :: chunk where
  "weather_chunk = fees_chunk \<lparr> ch_similarity := Some 0.04 \<rparr>"

subsection \<open>Properties of the context path\<close>

lemma trim_Nil [simp]: "trim [] = []"
  by (simp add: trim_def)

lemma truthy_trim: "truthy (trim q) \<Longrightarrow> truthy q"
  by (auto simp: truthy_def)

lemma js_join_nonempty: "xs \<noteq> [] \<Longrightarrow> hd xs \<noteq> [] \<Longrightarrow> js_join sep xs \<noteq> []"
  by (induction sep xs rule: js_join.induct) simp_all

lemma source_block_nonempty: "source_block index chunk \<noteq> []"
  by (simp add: source_block_def Let_def ascii_def)

lemma buildContextBlock_truthy: "truthy (buildContextBlock chunks)"
proof (cases chunks)
  case Nil
  then show ?thesis by (simp add: buildContextBlock_def truthy_def ascii_def)
next
  case (Cons c cs)
  let ?blocks = "map (\<lambda>(index, chunk). source_block index chunk) (enumerate 0 chunks)"
  have "?blocks \<noteq> []" using Cons by simp
  moreover have "hd ?blocks \<noteq> []"
    using Cons by (simp add: source_block_nonempty)
  ultimately have "js_join (ascii ''\<newline>\<newline>'') ?blocks \<noteq> []"
    by (rule js_join_nonempty)
  then show ?thesis using Cons by (simp add: buildContextBlock_def truthy_def)
qed

lemma respond_below:
  "chunks \<noteq> [] \<Longrightarrow> topSimilarity chunks < SIMILARITY_THRESHOLD \<Longrightarrow>
   resp_context (respond chunks) = None \<and> resp_chunksFound (respond chunks) = Some 0"
  by (simp add: respond_def no_response_def)

lemma respond_at_or_above:
  "chunks \<noteq> [] \<Longrightarrow> SIMILARITY_THRESHOLD \<le> topSimilarity chunks \<Longrightarrow>
   resp_context (respond chunks) = Some (buildContextBlock chunks) \<and>
   resp_chunksFound (respond chunks) = Some (length chunks) \<and>
   resp_instructions (respond chunks) = None"
  by (simp add: respond_def no_response_def)

lemma fetchAndSendContext_fresh:
  assumes "channel_open s" and "truthy (trim q)"
    and "prewarmCacheRef s (cache_key sid cat (trim q)) = None"
    and "fetch (context_request sid cat (trim q)) = FetchResponse True data"
  shows "fetchAndSendContext texts fetch sid cat (Some q) s =
           (if positive (resp_chunksFound data) \<and> truthy_opt (resp_context data)
            then s \<lparr> fetched := fetched s @ [context_request sid cat (trim q)],
                     sent := sent s @
                       [ConversationItemCreate Assistant
                          (if truthy_opt (resp_instructions data)
                           then or_else (resp_instructions data) []
                           else ISHU_VOICE_PROMPT texts @
                                ascii ''\<newline>\<newline>=== RELEVANT INFORMATION ===\<newline>'' @
                                or_else (resp_context data) [] @
                                ascii ''\<newline>=== END OF INFORMATION ===\<newline>\<newline>'' @
                                contextSuffix texts)] \<rparr>
            else s \<lparr> fetched := fetched s @ [context_request sid cat (trim q)] \<rparr>)"
  using assms truthy_trim [OF assms(2)]
  by (simp add: fetchAndSendContext_def Let_def)

lemma POST_rag_context_responds:
  assumes "rq_question body = Some question" and "truthy (trim question)"
    and "retrieveChunks env (Some (trim question))
           (Some (effectiveMatchCount (rq_matchCount body))) None = (Inr chunks, calls)"
  shows "POST_rag_context env body = ((200, respond chunks), calls)"
  using assms truthy_trim [OF assms(2)]
  by (simp add: POST_rag_context_def)

text \<open>
  On the handler with the threshold the gate is strict: for a non-empty result list
  delivered to an open session, a context item is sent exactly when the top similarity is
  at least 0.25.
\<close>

lemma relevance_gate_strict:
  assumes "chunks \<noteq> []" and "channel_open s" and "truthy (trim q)"
    and "prewarmCacheRef s (cache_key sid cat (trim q)) = None"
    and "fetch (context_request sid cat (trim q)) = FetchResponse True (respond chunks)"
  shows "(sent (fetchAndSendContext texts fetch sid cat (Some q) s) \<noteq> sent s
            \<longleftrightarrow> 0.25 \<le> topSimilarity chunks) \<and>
         (topSimilarity chunks < 0.25 \<longrightarrow>
            resp_context (respond chunks) = None \<and>
            resp_chunksFound (respond chunks) = Some 0 \<and>
            sent (fetchAndSendContext texts fetch sid cat (Some q) s) = sent s) \<and>
         (0.25 \<le> topSimilarity chunks \<longrightarrow>
            resp_context (respond chunks) = Some (buildContextBlock chunks) \<and>
            (\<exists>item. sent (fetchAndSendContext texts fetch sid cat (Some q) s) =
                       sent s @ [ConversationItemCreate Assistant item]))"
proof (cases "topSimilarity chunks < SIMILARITY_THRESHOLD")
  note fresh = fetchAndSendContext_fresh [where fetch = fetch and texts = texts, OF assms(2-5)]
  case True
  then have "sent (fetchAndSendContext texts fetch sid cat (Some q) s) = sent s"
    using respond_below [OF assms(1) True]
    by (simp add: fresh positive_def truthy_opt_def)
  then show ?thesis
    using True respond_below [OF assms(1) True] by (simp add: SIMILARITY_THRESHOLD_def)
next
  note fresh = fetchAndSendContext_fresh [where fetch = fetch and texts = texts, OF assms(2-5)]
  case False
  then have ge: "SIMILARITY_THRESHOLD \<le> topSimilarity chunks" by simp
  have len: "0 < length chunks" using assms(1) by simp
  have "sent (fetchAndSendContext texts fetch sid cat (Some q) s) =
          sent s @ [ConversationItemCreate Assistant
            (ISHU_VOICE_PROMPT texts @
             ascii ''\<newline>\<newline>=== RELEVANT INFORMATION ===\<newline>'' @
             buildContextBlock chunks @
             ascii ''\<newline>=== END OF INFORMATION ===\<newline>\<newline>'' @
             contextSuffix texts)]"
    using respond_at_or_above [OF assms(1) ge] buildContextBlock_truthy [of chunks] len
    by (simp add: fresh positive_def truthy_opt_def or_else_def)
  then show ?thesis
    using ge respond_at_or_above [OF assms(1) ge] by (simp add: SIMILARITY_THRESHOLD_def)
qed


lemma topSimilarity_weather: "topSimilarity [weather_chunk] = 0.04"
  by (simp add: topSimilarity_def weather_chunk_def fees_chunk_def)

lemma relevance_gate_strict_weather:
  "sent (fetchAndSendContext sample_texts (\<lambda>r. FetchResponse True (respond [weather_chunk]))
           None None (Some (ascii ''weather today'')) open_chat) = []"
proof -
  have o: "channel_open open_chat"
    by (simp add: channel_open_def open_chat_def)
  have t: "truthy (trim (ascii ''weather today''))"
    by (simp add: truthy_def trim_def ascii_def js_whitespace_def)
  have c: "prewarmCacheRef open_chat (cache_key None None (trim (ascii ''weather today''))) = None"
    by (simp add: open_chat_def initial_chat_def)
  have ne: "[weather_chunk] \<noteq> []" by simp
  have lt: "topSimilarity [weather_chunk] < 0.25"
    by (simp add: topSimilarity_weather)
  show ?thesis
    using relevance_gate_strict [OF ne o t c refl, of sample_texts] lt
    by (simp add: open_chat_def initial_chat_def)
qed

text \<open>
  Claim C1. Context is injected if and only if the top similarity is at least 0.25. The
  handler with \<open>SIMILARITY_THRESHOLD\<close> does so (\<open>relevance_gate_strict\<close>). The other
  copy of the handler has no threshold: for the result list of one chunk of similarity
  0.04 it answers with the context block and \<open>chunksFound = 1\<close>, and the component sends
  the context to the backend.
\<close>

theorem ungated_handler_injects_below_threshold:
  "topSimilarity [weather_chunk] < SIMILARITY_THRESHOLD \<and>
   resp_context (respond_with_instructions p u st [weather_chunk]) =
     Some (buildContextBlock [weather_chunk]) \<and>
   resp_chunksFound (respond_with_instructions p u st [weather_chunk]) = Some 1 \<and>
   sent (fetchAndSendContext sample_texts
           (\<lambda>r. FetchResponse True (respond_with_instructions p u st [weather_chunk]))
           None None (Some (ascii ''weather today'')) open_chat) =
     [ConversationItemCreate Assistant
        (p @ ascii ''\<newline>\<newline>=== RELEVANT INFORMATION ===\<newline>'' @
         buildContextBlock [weather_chunk] @
         ascii ''\<newline>=== END OF INFORMATION ===\<newline>\<newline>'' @ u)]"
proof -
  let ?data = "respond_with_instructions p u st [weather_chunk]"
  have o: "channel_open open_chat"
    by (simp add: channel_open_def open_chat_def)
  have t: "truthy (trim (ascii ''weather today''))"
    by (simp add: truthy_def trim_def ascii_def js_whitespace_def)
  have c: "prewarmCacheRef open_chat (cache_key None None (trim (ascii ''weather today''))) = None"
    by (simp add: open_chat_def initial_chat_def)
  have ctx: "resp_context ?data = Some (buildContextBlock [weather_chunk])"
    and found: "resp_chunksFound ?data = Some 1"
    and ins: "resp_instructions ?data =
                Some (p @ ascii ''\<newline>\<newline>=== RELEVANT INFORMATION ===\<newline>'' @
                      buildContextBlock [weather_chunk] @
                      ascii ''\<newline>=== END OF INFORMATION ===\<newline>\<newline>'' @ u)"
    by (simp_all add: respond_with_instructions_def no_response_def Let_def)
  have ins_truthy: "truthy_opt (resp_instructions ?data)"
    unfolding ins by (simp add: truthy_opt_def truthy_def ascii_def)
  have "sent (fetchAndSendContext sample_texts (\<lambda>r. FetchResponse True ?data)
           None None (Some (ascii ''weather today'')) open_chat) =
        [ConversationItemCreate Assistant (or_else (resp_instructions ?data) [])]"
    using fetchAndSendContext_fresh [where fetch = "\<lambda>r. FetchResponse True ?data"
        and texts = sample_texts, OF o t c refl]
      ins_truthy buildContextBlock_truthy [of "[weather_chunk]"]
    by (simp add: ctx found positive_def truthy_opt_def open_chat_def initial_chat_def)
  moreover have "or_else (resp_instructions ?data) [] =
      p @ ascii ''\<newline>\<newline>=== RELEVANT INFORMATION ===\<newline>'' @
      buildContextBlock [weather_chunk] @
      ascii ''\<newline>=== END OF INFORMATION ===\<newline>\<newline>'' @ u"
    using ins_truthy unfolding ins by (simp add: or_else_def truthy_opt_def)
  ultimately show ?thesis
    using ctx found by (simp add: topSimilarity_weather SIMILARITY_THRESHOLD_def)
qed


theorem ungated_handler_injects_below_threshold_witness:
  "resp_chunksFound (respond_with_instructions (ascii ''You are Ishu.'') (ascii ''Use ONLY this.'')
      (ascii ''Stay silent.'') [weather_chunk]) = Some 1 \<and>
   resp_context (respond [weather_chunk]) = None"
proof -
  have "[weather_chunk] \<noteq> []" by simp
  moreover have "topSimilarity [weather_chunk] < SIMILARITY_THRESHOLD"
    by (simp add: topSimilarity_weather SIMILARITY_THRESHOLD_def)
  ultimately have "resp_context (respond [weather_chunk]) = None"
    using respond_below by blast
  then show ?thesis
    using ungated_handler_injects_below_threshold
      [of "ascii ''You are Ishu.''" "ascii ''Use ONLY this.''" "ascii ''Stay silent.''"]
    by simp
qed

subsection \<open>The prewarm cache\<close>

text \<open>
  Claim C7, as stated: a full context fetch whose key matches a populated prewarm entry
  sends the cached result and issues no network request. A prewarm whose response carries
  no context (here: the top similarity is below the threshold) populates the cache all
  the same, and the full fetch with the same key then issues its own request.
\<close>

theorem prewarmed_null_context_refetches:
  "prewarmCacheRef
     (prewarmContext (\<lambda>r. FetchResponse True (respond [weather_chunk])) None None
        (Some (ascii ''weather today'')) open_chat)
     (cache_key None None (trim (ascii ''weather today''))) = Some (respond [weather_chunk]) \<and>
   fetched
     (fetchAndSendContext sample_texts (\<lambda>r. FetchResponse True (respond [weather_chunk]))
        None None (Some (ascii ''weather today''))
        (prewarmContext (\<lambda>r. FetchResponse True (respond [weather_chunk])) None None
           (Some (ascii ''weather today'')) open_chat)) =
     [context_request None None (trim (ascii ''weather today'')),
      context_request None None (trim (ascii ''weather today''))]"
proof -
  let ?fetch = "\<lambda>r::rag_request. FetchResponse True (respond [weather_chunk])"
  let ?q = "ascii ''weather today''"
  let ?key = "cache_key None None (trim ?q)"
  let ?s1 = "prewarmContext ?fetch None None (Some ?q) open_chat"
  have t: "truthy (trim ?q)"
    by (simp add: truthy_def trim_def ascii_def js_whitespace_def)
  have tq: "truthy ?q"
    by (rule truthy_trim [OF t])
  have o: "channel_open open_chat"
    by (simp add: channel_open_def open_chat_def)
  have c: "prewarmCacheRef open_chat ?key = None"
    by (simp add: open_chat_def initial_chat_def)
  have s1: "?s1 = open_chat \<lparr> fetched := [context_request None None (trim ?q)],
                             prewarmCacheRef := (prewarmCacheRef open_chat)(?key \<mapsto> respond [weather_chunk]),
                             prewarmAbortRef := False \<rparr>"
    using t tq o c by (simp add: prewarmContext_def Let_def open_chat_def initial_chat_def)
  have null: "resp_context (respond [weather_chunk]) = None"
    using respond_below [of "[weather_chunk]"]
    by (simp add: topSimilarity_weather SIMILARITY_THRESHOLD_def)
  have cached: "prewarmCacheRef ?s1 ?key = Some (respond [weather_chunk])"
    by (simp add: s1)
  have o1: "channel_open ?s1"
    using o by (simp add: s1 channel_open_def)
  have f1: "fetched ?s1 = [context_request None None (trim ?q)]"
    by (simp add: s1)
  have "fetched (fetchAndSendContext sample_texts ?fetch None None (Some ?q) ?s1) =
          fetched ?s1 @ [context_request None None (trim ?q)]"
    using o1 t tq cached null
    by (simp add: fetchAndSendContext_def Let_def truthy_opt_def positive_def
        respond_below [of "[weather_chunk]"] topSimilarity_weather SIMILARITY_THRESHOLD_def)
  then show ?thesis
    using cached f1 by simp
qed

text \<open>
  Claim C7, amended. For every prewarm cache entry populated under the key (session id,
  category, first 100 characters of the trimmed query) whose context is a non-empty
  string, a full context fetch with an open data channel and a matching key sends the
  cached context as one conversation item and issues no request to the retrieval endpoint.
  An entry whose context is null or empty is not used: the call issues the request.
\<close>

theorem prewarm_hit_skips_network:
  assumes "channel_open s" and "truthy (trim q)"
    and "prewarmCacheRef s (cache_key sid cat (trim q)) = Some d"
  shows "(truthy_opt (resp_context d) \<longrightarrow>
            fetched (fetchAndSendContext texts fetch sid cat (Some q) s) = fetched s \<and>
            sent (fetchAndSendContext texts fetch sid cat (Some q) s) =
              sent s @ [ConversationItemCreate Assistant
                          (prewarmedPrefix texts @ the (resp_context d) @ prewarmedSuffix texts)]) \<and>
         (\<not> truthy_opt (resp_context d) \<longrightarrow>
            fetched (fetchAndSendContext texts fetch sid cat (Some q) s) =
              fetched s @ [context_request sid cat (trim q)])"
proof (intro conjI impI)
  note tq = truthy_trim [OF assms(2)]
  {
    assume hit: "truthy_opt (resp_context d)"
    then obtain c where c: "resp_context d = Some c" "truthy c"
      by (auto simp: truthy_opt_def split: option.splits)
    have eq: "fetchAndSendContext texts fetch sid cat (Some q) s =
            s \<lparr> sent := sent s @ [ConversationItemCreate Assistant
                     (prewarmedPrefix texts @ c @ prewarmedSuffix texts)] \<rparr>"
      using assms tq hit c
      by (simp add: fetchAndSendContext_def Let_def or_else_def)
    show "fetched (fetchAndSendContext texts fetch sid cat (Some q) s) = fetched s"
      by (simp add: eq)
    show "sent (fetchAndSendContext texts fetch sid cat (Some q) s) =
              sent s @ [ConversationItemCreate Assistant
                          (prewarmedPrefix texts @ the (resp_context d) @ prewarmedSuffix texts)]"
      by (simp add: eq c)
  }
  {
    assume miss: "\<not> truthy_opt (resp_context d)"
    show "fetched (fetchAndSendContext texts fetch sid cat (Some q) s) =
              fetched s @ [context_request sid cat (trim q)]"
      using assms tq miss
      by (simp add: fetchAndSendContext_def Let_def split: fetch_outcome.split)
  }
qed

theorem prewarm_hit_skips_network_witness:
  "fetched (fetchAndSendContext sample_texts (\<lambda>r. FetchFailed) None None
              (Some (ascii '' fees? ''))
              (open_chat \<lparr> prewarmCacheRef :=
                 [cache_key None None (ascii ''fees?'') \<mapsto> respond [fees_chunk]] \<rparr>)) = [] \<and>
   sent (fetchAndSendContext sample_texts (\<lambda>r. FetchFailed) None None
              (Some (ascii '' fees? ''))
              (open_chat \<lparr> prewarmCacheRef :=
                 [cache_key None None (ascii ''fees?'') \<mapsto> respond [fees_chunk]] \<rparr>)) =
     [ConversationItemCreate Assistant
        (ascii ''<'' @ buildContextBlock [fees_chunk] @ ascii ''>'')]"
proof -
  let ?s = "open_chat \<lparr> prewarmCacheRef :=
                 [cache_key None None (ascii ''fees?'') \<mapsto> respond [fees_chunk]] \<rparr>"
  have tr: "trim (ascii '' fees? '') = ascii ''fees?''"
    by (simp add: trim_def ascii_def js_whitespace_def)
  have o: "channel_open ?s"
    by (simp add: channel_open_def open_chat_def)
  have t: "truthy (trim (ascii '' fees? ''))"
    unfolding tr by (simp add: truthy_def ascii_def)
  have c: "prewarmCacheRef ?s (cache_key None None (trim (ascii '' fees? ''))) =
             Some (respond [fees_chunk])"
    unfolding tr by simp
  have top: "SIMILARITY_THRESHOLD \<le> topSimilarity [fees_chunk]"
    by (simp add: topSimilarity_def fees_chunk_def SIMILARITY_THRESHOLD_def)
  have ctx: "resp_context (respond [fees_chunk]) = Some (buildContextBlock [fees_chunk])"
    using respond_at_or_above [OF _ top] by simp
  have hit: "truthy_opt (resp_context (respond [fees_chunk]))"
    unfolding ctx using buildContextBlock_truthy by (simp add: truthy_opt_def)
  show ?thesis
    using prewarm_hit_skips_network [OF o t c, of sample_texts "\<lambda>r. FetchFailed"] hit ctx
    by (simp add: sample_texts_def open_chat_def initial_chat_def)
qed


subsection \<open>Assistant transcript (onResponseTranscript)\<close>

text \<open>
  The fields of a control-channel event that \<open>onResponseTranscript\<close> reads. A field is
  a string or absent, as the dispatcher and the wire protocol deliver it; the branches of
  \<open>extractText\<close> for arrays and objects are not reached by such values.
\<close>

record transcript_event =
  ev_transcript :: "jsstring option"
  ev_delta :: "jsstring option"
  ev_item_transcript :: "jsstring option"
  ev_item_output_audio_transcript :: "jsstring option"
  ev_item_text :: "jsstring option"
  ev_item_content :: "jsstring option"
  ev_part_transcript :: "jsstring option"
  ev_part_text :: "jsstring option"
  ev_part_content :: "jsstring option"
  ev_part_delta :: "jsstring option"

text \<open>\<open>a || b || ... || ""\<close>\<close>

fun first_truthy :: "jsstring option list \<Rightarrow> jsstring" where
  "first_truthy [] = []"
| "first_truthy (v # vs) = (if truthy_opt v then or_else v [] else first_truthy vs)"

definition extractText :: "jsstring \<Rightarrow> jsstring" where
  "extractText v = (if \<not> truthy v then [] else v)"

definition event_text :: "transcript_event \<Rightarrow> jsstring" where
  "event_text event =
     extractText (first_truthy
       [ev_transcript event, ev_delta event, ev_item_transcript event,
        ev_item_output_audio_transcript event, ev_item_text event, ev_item_content event,
        ev_part_transcript event, ev_part_text event, ev_part_content event,
        ev_part_delta event])"

definition isDelta :: "transcript_event \<Rightarrow> bool" where
  "isDelta event \<longleftrightarrow> truthy_opt (ev_delta event) \<or> truthy_opt (ev_part_delta event)"

definition onResponseTranscript :: "transcript_event \<Rightarrow> voice_chat \<Rightarrow> voice_chat" where
  "onResponseTranscript event s =
     (let trimmedText = trim (event_text event) in
      if truthy trimmedText then
        let currentText = currentAssistantMessageRef s;
            newText = (if isDelta event then currentText @ trimmedText else trimmedText)
        in if newText \<noteq> currentText \<and> length newText > length currentText
           then s \<lparr> currentAssistantMessageRef := newText, currentAssistantMessage := newText \<rparr>
           else s
      else s)"

text \<open>The events of one reply, handled in their order of arrival.\<close>

definition handle_transcripts :: "transcript_event list \<Rightarrow> voice_chat \<Rightarrow> voice_chat" where
  "handle_transcripts events s = fold onResponseTranscript events s"

definition no_event :: transcript_event where
  "no_event = \<lparr> ev_transcript = None, ev_delta = None, ev_item_transcript = None,
                 ev_item_output_audio_transcript = None, ev_item_text = None,
                 ev_item_content = None, ev_part_transcript = None, ev_part_text = None,
                 ev_part_content = None, ev_part_delta = None \<rparr>"

text \<open>
  The events as the dispatcher hands them over: a delta event carries its text in
  \<open>delta\<close> and, copied by the dispatcher, in \<open>transcript\<close>; a completion event carries
  the full text in \<open>transcript\<close>.
\<close>

definition delta_event :: "jsstring \<Rightarrow> transcript_event" where
  "delta_event t = no_event \<lparr> ev_transcript := Some t, ev_delta := Some t \<rparr>"

definition full_event :: "jsstring \<Rightarrow> transcript_event" where
  "full_event t = no_event \<lparr> ev_transcript := Some t \<rparr>"

lemma onResponseTranscript_length:
  "length (currentAssistantMessageRef s) \<le>
     length (currentAssistantMessageRef (onResponseTranscript event s))"
  by (simp add: onResponseTranscript_def Let_def)

lemma onResponseTranscript_changes:
  "currentAssistantMessageRef (onResponseTranscript event s) \<noteq> currentAssistantMessageRef s \<Longrightarrow>
   length (currentAssistantMessageRef s) <
     length (currentAssistantMessageRef (onResponseTranscript event s))"
  by (simp add: onResponseTranscript_def Let_def split: if_splits)

lemma handle_transcripts_length:
  "length (currentAssistantMessageRef s) \<le>
     length (currentAssistantMessageRef (handle_transcripts events s))"
  unfolding handle_transcripts_def
proof (induction events arbitrary: s)
  case Nil
  then show ?case by simp
next
  case (Cons e es)
  have "length (currentAssistantMessageRef s) \<le>
          length (currentAssistantMessageRef (onResponseTranscript e s))"
    by (rule onResponseTranscript_length)
  also have "\<dots> \<le> length (currentAssistantMessageRef (fold onResponseTranscript es (onResponseTranscript e s)))"
    by (rule Cons.IH)
  finally show ?case by simp
qed

lemma event_text_full: "event_text (full_event t) = t"
  by (cases t) (simp_all add: event_text_def full_event_def no_event_def extractText_def
      truthy_opt_def truthy_def or_else_def)

lemma event_text_delta: "event_text (delta_event t) = t"
  by (cases t) (simp_all add: event_text_def delta_event_def no_event_def extractText_def
      truthy_opt_def truthy_def or_else_def)

lemma isDelta_full: "\<not> isDelta (full_event t)"
  by (simp add: isDelta_def full_event_def no_event_def truthy_opt_def)

lemma onResponseTranscript_full:
  "currentAssistantMessageRef (onResponseTranscript (full_event t) s) =
     (if length (currentAssistantMessageRef s) < length (trim t) then trim t
      else currentAssistantMessageRef s)"
  by (auto simp: onResponseTranscript_def Let_def event_text_full isDelta_full truthy_def)

lemma isDelta_delta: "isDelta (delta_event t) \<longleftrightarrow> truthy t"
  by (simp add: isDelta_def delta_event_def no_event_def truthy_opt_def)

lemma onResponseTranscript_delta:
  "currentAssistantMessageRef (onResponseTranscript (delta_event t) s) =
     (if trim t \<noteq> [] then currentAssistantMessageRef s @ trim t
      else currentAssistantMessageRef s)"
proof (cases "trim t = []")
  case True
  then show ?thesis
    by (simp add: onResponseTranscript_def Let_def event_text_delta truthy_def)
next
  case False
  then have "truthy t"
    by (auto simp: truthy_def)
  then show ?thesis
    using False
    by (simp add: onResponseTranscript_def Let_def event_text_delta isDelta_delta truthy_def)
qed

lemma trim_Hi: "trim (ascii ''Hi'') = ascii ''Hi''"
  by (simp add: trim_def js_whitespace_def ascii_def)

lemma trim_Hello: "trim (ascii ''Hello'') = ascii ''Hello''"
  by (simp add: trim_def js_whitespace_def ascii_def)

lemma trim_there: "trim (ascii '' there'') = ascii ''there''"
  by (simp add: trim_def js_whitespace_def ascii_def)

lemma trim_Hello_there: "trim (ascii ''Hello there'') = ascii ''Hello there''"
  by (simp add: trim_def js_whitespace_def ascii_def)

text \<open>
  Claim C5, as stated: after the completion event the accumulated text equals the final
  event's full text. A partial delivered twice is appended twice, and the full transcript
  that follows is not longer than what was accumulated, so it is not applied.
\<close>

theorem duplicate_partial_outlives_final_transcript:
  "currentAssistantMessageRef
     (handle_transcripts [delta_event (ascii ''Hi''), delta_event (ascii ''Hi''),
                          full_event (ascii ''Hi'')] initial_chat) = ascii ''HiHi'' \<and>
   currentAssistantMessageRef
     (handle_transcripts [delta_event (ascii ''Hi''), delta_event (ascii ''Hi''),
                          full_event (ascii ''Hi'')] initial_chat) \<noteq> ascii ''Hi''"
proof -
  have "currentAssistantMessageRef initial_chat = []"
    by (simp add: initial_chat_def)
  then have "currentAssistantMessageRef
     (handle_transcripts [delta_event (ascii ''Hi''), delta_event (ascii ''Hi''),
                          full_event (ascii ''Hi'')] initial_chat) = ascii ''Hi'' @ ascii ''Hi''"
    by (simp add: handle_transcripts_def onResponseTranscript_delta onResponseTranscript_full
        trim_Hi)
  then show ?thesis
    by (simp add: ascii_def)
qed

text \<open>
  Claim C5, amended. For any sequence of partial and full-transcript events handled by
  \<open>onResponseTranscript\<close>, the accumulated assistant text is non-decreasing in length, and
  a new value replaces the current one only if it is strictly longer. A full-transcript
  event leaves the accumulated text equal to its trimmed full text exactly when that text
  is strictly longer than the text accumulated before it; otherwise the accumulated text
  is kept.
\<close>

theorem transcript_accumulates_monotonically:
  "length (currentAssistantMessageRef s) \<le>
     length (currentAssistantMessageRef (handle_transcripts events s)) \<and>
   (currentAssistantMessageRef (onResponseTranscript event s) \<noteq> currentAssistantMessageRef s \<longrightarrow>
      length (currentAssistantMessageRef s) <
        length (currentAssistantMessageRef (onResponseTranscript event s))) \<and>
   currentAssistantMessageRef (onResponseTranscript (full_event t) s) =
     (if length (currentAssistantMessageRef s) < length (trim t) then trim t
      else currentAssistantMessageRef s)"
  using handle_transcripts_length [of s events] onResponseTranscript_changes [of event s]
    onResponseTranscript_full [of t s]
  by blast

theorem transcript_accumulates_monotonically_witness:
  "currentAssistantMessageRef
     (handle_transcripts [delta_event (ascii ''Hello''), delta_event (ascii '' there'')]
        initial_chat) = ascii ''Hellothere'' \<and>
   currentAssistantMessageRef
     (onResponseTranscript (full_event (ascii ''Hello there''))
        (handle_transcripts [delta_event (ascii ''Hello''), delta_event (ascii '' there'')]
           initial_chat)) = ascii ''Hello there''"
proof -
  let ?s = "handle_transcripts [delta_event (ascii ''Hello''), delta_event (ascii '' there'')]
              initial_chat"
  have "currentAssistantMessageRef initial_chat = []"
    by (simp add: initial_chat_def)
  then have "currentAssistantMessageRef ?s = ascii ''Hello'' @ ascii ''there''"
    by (simp add: handle_transcripts_def onResponseTranscript_delta trim_Hello trim_there)
  then have acc: "currentAssistantMessageRef ?s = ascii ''Hellothere''"
    by (simp add: ascii_def)
  note tr = trim_Hello_there
  have "length (currentAssistantMessageRef ?s) < length (trim (ascii ''Hello there''))"
    unfolding acc tr by (simp add: ascii_def)
  then show ?thesis
    using transcript_accumulates_monotonically
      [of ?s "[]" "full_event (ascii ''Hello there'')" "ascii ''Hello there''"] acc tr
    by simp
qed


subsection \<open>Disconnect\<close>

text \<open>
  \<open>saveConversation\<close> posts the messages of the session when there is a session id and at
  least one message; a failed request is logged and swallowed, so the model records the
  request only.
\<close>

definition saveConversation :: "voice_chat \<Rightarrow> voice_chat" where
  "saveConversation s =
     (case sessionId s of
        None \<Rightarrow> s
      | Some sid \<Rightarrow>
          if conversationMessagesRef s = [] then s
          else s \<lparr> saved := saved s @ [(sid, conversationMessagesRef s)] \<rparr>)"

text \<open>\<open>onConversationEnd\<close> is a prop of the component; \<open>hasOnConversationEnd\<close> says it is set.\<close>

definition disconnect :: "bool \<Rightarrow> voice_chat \<Rightarrow> voice_chat" where
  "disconnect hasOnConversationEnd s =
     (let s1 = (case retryTimeoutRef s of
                  None \<Rightarrow> s
                | Some t \<Rightarrow> s \<lparr> timers := remove1 t (timers s), retryTimeoutRef := None \<rparr>);
          s2 = s1 \<lparr> retryCountRef := 0 \<rparr>;
          s3 = (if pcRef s2 then s2 \<lparr> listenersRef := False \<rparr> else s2);
          messagesToShow = conversationMessagesRef s3;
          s4 = saveConversation s3;
          s5 = s4 \<lparr> isConnected := False, isConnecting := False, isRecording := False,
                     isPlaying := False, error := None, pcRef := False, streamRef := False,
                     dataChannelRef := None, currentUserMessageRef := [],
                     currentAssistantMessageRef := [], speechRecognitionRef := False,
                     interimTranscript := [] \<rparr>;
          s6 = (if hasOnConversationEnd \<and> messagesToShow \<noteq> []
                then s5 \<lparr> ended := ended s5 @ [(messagesToShow, sessionId s5)] \<rparr> else s5)
      in s6 \<lparr> conversationMessagesRef := [], conversationMessages := [], sessionId := None \<rparr>)"

lemma prewarmCacheRef_saveConversation [simp]:
  "prewarmCacheRef (saveConversation s) = prewarmCacheRef s"
  by (simp add: saveConversation_def split: option.split)

lemma disconnect_prewarmCacheRef:
  "prewarmCacheRef (disconnect hasOnConversationEnd s) = prewarmCacheRef s"
  by (simp add: disconnect_def Let_def split: option.split)

lemma disconnect_resets:
  "conversationMessagesRef (disconnect h s) = [] \<and> conversationMessages (disconnect h s) = [] \<and>
   sessionId (disconnect h s) = None \<and> currentUserMessageRef (disconnect h s) = [] \<and>
   currentAssistantMessageRef (disconnect h s) = [] \<and> retryCountRef (disconnect h s) = 0 \<and>
   retryTimeoutRef (disconnect h s) = None \<and> dataChannelRef (disconnect h s) = None \<and>
   \<not> pcRef (disconnect h s) \<and> \<not> streamRef (disconnect h s)"
  by (simp add: disconnect_def Let_def saveConversation_def split: option.split)

text \<open>
  Claim C8, as stated: after \<open>disconnect\<close> the prewarm context cache contains no entries.
  A session that prewarmed one question keeps the entry across \<open>disconnect\<close>.
\<close>

theorem disconnect_keeps_prewarm_entry:
  "prewarmCacheRef
     (disconnect True
        (prewarmContext (\<lambda>r. FetchResponse True (respond [fees_chunk])) None None
           (Some (ascii ''fees?'')) open_chat))
     (cache_key None None (ascii ''fees?'')) = Some (respond [fees_chunk])"
proof -
  have tr: "trim (ascii ''fees?'') = ascii ''fees?''"
    by (simp add: trim_def js_whitespace_def ascii_def)
  have t: "truthy (ascii ''fees?'')"
    by (simp add: truthy_def ascii_def)
  have o: "channel_open open_chat"
    by (simp add: channel_open_def open_chat_def)
  have c: "prewarmCacheRef open_chat (cache_key None None (ascii ''fees?'')) = None"
    by (simp add: open_chat_def initial_chat_def)
  have "prewarmCacheRef
          (prewarmContext (\<lambda>r. FetchResponse True (respond [fees_chunk])) None None
             (Some (ascii ''fees?'')) open_chat)
          (cache_key None None (ascii ''fees?'')) = Some (respond [fees_chunk])"
    using t o c by (simp add: prewarmContext_def Let_def tr)
  then show ?thesis
    by (simp add: disconnect_prewarmCacheRef)
qed

lemma disconnect_timers:
  "timers (disconnect h s) =
     (case retryTimeoutRef s of None \<Rightarrow> timers s | Some t \<Rightarrow> remove1 t (timers s))"
  by (simp add: disconnect_def Let_def saveConversation_def split: option.split)

text \<open>
  Claim C8, amended. After \<open>disconnect\<close> the per-session message buffers are empty, the
  refs of the current user and assistant message are empty, the session id is null, the
  retry counter is 0, the timer that \<open>retryTimeoutRef\<close> referred to is cleared and the
  ref is null (every other pending timer is left as it is), and the refs of the peer
  connection, the stream and the data channel are null. The prewarm context cache is not
  touched: it holds the entries it held before.
\<close>

theorem disconnect_resets_session_keeps_cache:
  "conversationMessagesRef (disconnect h s) = [] \<and> conversationMessages (disconnect h s) = [] \<and>
   sessionId (disconnect h s) = None \<and> currentUserMessageRef (disconnect h s) = [] \<and>
   currentAssistantMessageRef (disconnect h s) = [] \<and> retryCountRef (disconnect h s) = 0 \<and>
   retryTimeoutRef (disconnect h s) = None \<and>
   timers (disconnect h s) =
     (case retryTimeoutRef s of None \<Rightarrow> timers s | Some t \<Rightarrow> remove1 t (timers s)) \<and>
   dataChannelRef (disconnect h s) = None \<and>
   \<not> pcRef (disconnect h s) \<and> \<not> streamRef (disconnect h s) \<and>
   prewarmCacheRef (disconnect h s) = prewarmCacheRef s"
  using disconnect_resets [of h s] disconnect_prewarmCacheRef [of h s] disconnect_timers [of h s]
  by simp

definition busy_chat :: voice_chat where
  "busy_chat =
     open_chat \<lparr> sessionId := Some (ascii ''voice-1''),
                 prewarmCacheRef := [ascii ''voice-1::general::fees?'' \<mapsto> respond [fees_chunk]],
                 retryCountRef := 2,
                 retryTimeoutRef := Some \<lparr> tm_callback = RetryConnect 2, tm_delay = 4000 \<rparr>,
                 timers := [\<lparr> tm_callback = RetryConnect 1, tm_delay = 2000 \<rparr>,
                            \<lparr> tm_callback = RetryConnect 2, tm_delay = 4000 \<rparr>] \<rparr>"

theorem disconnect_resets_session_keeps_cache_witness:
  "sessionId (disconnect True busy_chat) = None \<and>
   dataChannelRef (disconnect True busy_chat) = None \<and>
   retryCountRef (disconnect True busy_chat) = 0 \<and>
   retryTimeoutRef (disconnect True busy_chat) = None \<and>
   timers (disconnect True busy_chat) = [\<lparr> tm_callback = RetryConnect 1, tm_delay = 2000 \<rparr>] \<and>
   prewarmCacheRef (disconnect True busy_chat) (ascii ''voice-1::general::fees?'') =
     Some (respond [fees_chunk])"
  using disconnect_resets_session_keeps_cache [of True busy_chat]
  by (simp add: busy_chat_def open_chat_def initial_chat_def)

subsection \<open>Retry with exponential backoff\<close>

definition maxRetries :: nat where
  "maxRetries = 5"

definition baseRetryDelay :: nat where
  "baseRetryDelay = 2000"

text \<open>
  \<open>scheduleRetry\<close>, called by the connection-state listener on a disconnected or failed
  connection. \<open>autoConnect\<close> is the prop its closure captured.
\<close>

definition scheduleRetry :: "bool \<Rightarrow> voice_chat \<Rightarrow> voice_chat" where
  "scheduleRetry autoConnect s =
     (if \<not> autoConnect then s
      else if retryCountRef s \<ge> maxRetries
      then s \<lparr> error := Some (ascii ''Connection lost. Please try refreshing the page.'') \<rparr>
      else
        let s1 = (case retryTimeoutRef s of
                    None \<Rightarrow> s
                  | Some t \<Rightarrow> s \<lparr> timers := remove1 t (timers s) \<rparr>);
            delay = baseRetryDelay * 2 ^ retryCountRef s1;
            currentRetry = retryCountRef s1 + 1;
            t = \<lparr> tm_callback = RetryConnect currentRetry, tm_delay = delay \<rparr>
        in s1 \<lparr> retryCountRef := currentRetry, retryTimeoutRef := Some t,
                timers := timers s1 @ [t] \<rparr>)"

text \<open>
  The \<open>catch\<close> block of \<open>connect\<close>: what a failed connection attempt does. \<open>errMessage\<close>
  is the message of the error caught.
\<close>

definition connect_failed :: "jsstring option \<Rightarrow> voice_chat \<Rightarrow> voice_chat" where
  "connect_failed errMessage s =
     (let s1 = s \<lparr> error := Some (or_else errMessage (ascii ''Connection failed'')),
                   isConnecting := False, isConnected := False \<rparr>
      in if retryCountRef s1 < maxRetries then
           let s2 = s1 \<lparr> retryCountRef := retryCountRef s1 + 1 \<rparr>;
               delay = baseRetryDelay * 2 ^ (retryCountRef s2 - 1);
               t = \<lparr> tm_callback = RetryConnect (retryCountRef s2), tm_delay = delay \<rparr>
           in s2 \<lparr> retryTimeoutRef := Some t, timers := timers s2 @ [t] \<rparr>
         else s1 \<lparr> retryCountRef := 0 \<rparr>)"

text \<open>
  The retry timer of attempt \<open>k\<close> with the delay the specification gives it,
  \<open>base \<times> 2^(k-1)\<close>.
\<close>

definition backoff :: "nat \<Rightarrow> timer" where
  "backoff k = \<lparr> tm_callback = RetryConnect k, tm_delay = 2000 * 2 ^ (k - 1) \<rparr>"

lemma scheduleRetry_below_ceiling:
  assumes "retryCountRef s < 5"
  shows "scheduleRetry True s =
           s \<lparr> timers := (case retryTimeoutRef s of None \<Rightarrow> timers s
                             | Some t \<Rightarrow> remove1 t (timers s)) @ [backoff (retryCountRef s + 1)],
               retryCountRef := retryCountRef s + 1,
               retryTimeoutRef := Some (backoff (retryCountRef s + 1)) \<rparr>"
  using assms
  by (simp add: scheduleRetry_def maxRetries_def baseRetryDelay_def backoff_def Let_def
      split: option.split)

lemma scheduleRetry_at_ceiling:
  assumes "5 \<le> retryCountRef s"
  shows "scheduleRetry True s =
           s \<lparr> error := Some (ascii ''Connection lost. Please try refreshing the page.'') \<rparr>"
  using assms by (simp add: scheduleRetry_def maxRetries_def)

lemma connect_failed_below_ceiling:
  assumes "retryCountRef s < 5"
  shows "connect_failed m s =
           s \<lparr> error := Some (or_else m (ascii ''Connection failed'')),
               isConnecting := False, isConnected := False,
               retryCountRef := retryCountRef s + 1,
               retryTimeoutRef := Some (backoff (retryCountRef s + 1)),
               timers := timers s @ [backoff (retryCountRef s + 1)] \<rparr>"
  using assms
  by (simp add: connect_failed_def maxRetries_def baseRetryDelay_def backoff_def Let_def)

lemma connect_failed_at_ceiling:
  assumes "5 \<le> retryCountRef s"
  shows "connect_failed m s =
           s \<lparr> error := Some (or_else m (ascii ''Connection failed'')),
               isConnecting := False, isConnected := False, retryCountRef := 0 \<rparr>"
  using assms by (simp add: connect_failed_def maxRetries_def Let_def)

lemma connect_failed_next:
  assumes "retryCountRef s = c" and "timers s = ts" and "c < 5"
    and "c' = c + 1" and "ts' = ts @ [backoff c']"
  shows "retryCountRef (connect_failed m s) = c' \<and> timers (connect_failed m s) = ts'"
proof -
  have "retryCountRef s < 5" using assms(1,3) by simp
  then show ?thesis
    using assms by (simp add: connect_failed_below_ceiling)
qed

lemma connect_failed_resets:
  assumes "retryCountRef s = c" and "timers s = ts" and "5 \<le> c"
  shows "retryCountRef (connect_failed m s) = 0 \<and> timers (connect_failed m s) = ts"
proof -
  have "5 \<le> retryCountRef s" using assms(1,3) by simp
  then show ?thesis
    using assms by (simp add: connect_failed_at_ceiling)
qed

text \<open>
  The failures of a session, in the order in which they happen: a call of \<open>connect\<close>
  fails (with the message of its error), or the listener reports the connection
  disconnected or failed and calls \<open>scheduleRetry\<close> (with the \<open>autoConnect\<close> it captured).
  In a run of failures \<open>timers\<close> lists the timers scheduled and not cleared.
\<close>

datatype retry_event =
    ConnectFails "jsstring option"
  | ConnectionLost bool

fun retry_step :: "retry_event \<Rightarrow> voice_chat \<Rightarrow> voice_chat" where
  "retry_step (ConnectFails errMessage) s = connect_failed errMessage s"
| "retry_step (ConnectionLost autoConnect) s = scheduleRetry autoConnect s"

definition retry_run :: "retry_event list \<Rightarrow> voice_chat \<Rightarrow> voice_chat" where
  "retry_run events s = fold retry_step events s"

text \<open>Every timer is the backoff timer of an attempt from 1 to the ceiling.\<close>

definition retry_inv :: "voice_chat \<Rightarrow> bool" where
  "retry_inv s \<longleftrightarrow>
     retryCountRef s \<le> maxRetries \<and> set (timers s) \<subseteq> backoff ` {1..maxRetries}"

lemma retry_step_inv:
  assumes "retry_inv s"
  shows "retry_inv (retry_step e s)"
proof (cases "retryCountRef s < 5")
  case True
  have new: "backoff (retryCountRef s + 1) \<in> backoff ` {1..maxRetries}"
    using True by (simp add: maxRetries_def)
  have old: "set (timers s) \<subseteq> backoff ` {1..maxRetries}"
    using assms by (simp add: retry_inv_def)
  have cleared: "set (case retryTimeoutRef s of None \<Rightarrow> timers s
                      | Some t \<Rightarrow> remove1 t (timers s)) \<subseteq> backoff ` {1..maxRetries}"
    using old set_remove1_subset [of _ "timers s"] by (auto split: option.split)
  show ?thesis
  proof (cases e)
    case (ConnectFails m)
    then show ?thesis
      using True new old
      by (simp add: connect_failed_below_ceiling [OF True] retry_inv_def maxRetries_def)
  next
    case (ConnectionLost autoConnect)
    show ?thesis
    proof (cases autoConnect)
      case True': True
      then show ?thesis
        using ConnectionLost True new cleared
        by (simp add: scheduleRetry_below_ceiling [OF True] retry_inv_def maxRetries_def)
    next
      case False
      then show ?thesis
        using ConnectionLost assms by (simp add: scheduleRetry_def)
    qed
  qed
next
  case False
  then have ge: "5 \<le> retryCountRef s" by simp
  show ?thesis
  proof (cases e)
    case (ConnectFails m)
    then show ?thesis
      using assms by (simp add: connect_failed_at_ceiling [OF ge] retry_inv_def)
  next
    case (ConnectionLost autoConnect)
    show ?thesis
    proof (cases autoConnect)
      case True
      then show ?thesis
        using ConnectionLost assms by (simp add: scheduleRetry_at_ceiling [OF ge] retry_inv_def)
    next
      case False
      then show ?thesis
        using ConnectionLost assms by (simp add: scheduleRetry_def)
    qed
  qed
qed

lemma retry_run_inv: "retry_inv s \<Longrightarrow> retry_inv (retry_run events s)"
  unfolding retry_run_def
  by (induction events arbitrary: s) (simp_all add: retry_step_inv)

lemma retry_inv_initial: "retry_inv initial_chat"
  by (simp add: retry_inv_def initial_chat_def)

text \<open>
  Claim C4, as stated: no retry attempt is ever scheduled after the ceiling of 5 attempts
  is reached. When \<open>connect\<close> fails with the counter at 5 it schedules nothing and resets
  the counter to 0, so the failure after that schedules attempt 1, at 2000 ms, again: of
  seven failed calls of \<open>connect\<close> the sixth schedules nothing and the seventh does.
\<close>

theorem retry_scheduled_after_ceiling:
  "retryCountRef
     (retry_run [ConnectFails None, ConnectFails None, ConnectFails None, ConnectFails None,
                 ConnectFails None] initial_chat) = 5 \<and>
   timers
     (retry_run [ConnectFails None, ConnectFails None, ConnectFails None, ConnectFails None,
                 ConnectFails None, ConnectFails None] initial_chat) =
     [backoff 1, backoff 2, backoff 3, backoff 4, backoff 5] \<and>
   timers
     (retry_run [ConnectFails None, ConnectFails None, ConnectFails None, ConnectFails None,
                 ConnectFails None, ConnectFails None, ConnectFails None] initial_chat) =
     [backoff 1, backoff 2, backoff 3, backoff 4, backoff 5, backoff 1] \<and>
   tm_delay (backoff 1) = 2000"
proof -
  let ?f = "connect_failed None"
  let ?s1 = "?f initial_chat"
  let ?s2 = "?f ?s1"
  let ?s3 = "?f ?s2"
  let ?s4 = "?f ?s3"
  let ?s5 = "?f ?s4"
  let ?s6 = "?f ?s5"
  let ?s7 = "?f ?s6"
  have c0: "retryCountRef initial_chat = 0" and t0: "timers initial_chat = []"
    by (simp_all add: initial_chat_def)
  have s1: "retryCountRef ?s1 = 1 \<and> timers ?s1 = [backoff 1]"
    by (rule connect_failed_next [where c = 0 and ts = "[]"]) (simp_all add: c0 t0)
  have s2: "retryCountRef ?s2 = 2 \<and> timers ?s2 = [backoff 1, backoff 2]"
    by (rule connect_failed_next [where c = 1 and ts = "[backoff 1]"]) (simp_all add: s1)
  have s3: "retryCountRef ?s3 = 3 \<and> timers ?s3 = [backoff 1, backoff 2, backoff 3]"
    by (rule connect_failed_next [where c = 2 and ts = "[backoff 1, backoff 2]"])
      (simp_all add: s2)
  have s4: "retryCountRef ?s4 = 4 \<and> timers ?s4 = [backoff 1, backoff 2, backoff 3, backoff 4]"
    by (rule connect_failed_next [where c = 3 and ts = "[backoff 1, backoff 2, backoff 3]"])
      (simp_all add: s3)
  have s5: "retryCountRef ?s5 = 5 \<and>
            timers ?s5 = [backoff 1, backoff 2, backoff 3, backoff 4, backoff 5]"
    by (rule connect_failed_next
        [where c = 4 and ts = "[backoff 1, backoff 2, backoff 3, backoff 4]"])
      (simp_all add: s4)
  have s6: "retryCountRef ?s6 = 0 \<and>
            timers ?s6 = [backoff 1, backoff 2, backoff 3, backoff 4, backoff 5]"
    by (rule connect_failed_resets [where c = 5]) (simp_all add: s5)
  have s7: "retryCountRef ?s7 = 1 \<and>
            timers ?s7 = [backoff 1, backoff 2, backoff 3, backoff 4, backoff 5, backoff 1]"
    by (rule connect_failed_next
        [where c = 0 and ts = "[backoff 1, backoff 2, backoff 3, backoff 4, backoff 5]"])
      (simp_all add: s6)
  have d: "tm_delay (backoff 1) = 2000"
    by (simp add: backoff_def)
  show ?thesis
    using s5 s6 s7 d by (simp add: retry_run_def)
qed

text \<open>
  Claim C4, amended. While the retry counter \<open>c\<close> is below the ceiling of 5, a failed
  \<open>connect\<close> and a lost connection (with \<open>autoConnect\<close>) schedule retry attempt
  \<open>k = c + 1\<close> after \<open>2000 \<times> 2^(k-1)\<close> ms and set the counter to \<open>k\<close>; at a failure with
  the counter at 5 neither schedules a retry. So through any sequence of failures from a
  new component the counter never exceeds 5 and every retry timer is that of an attempt
  \<open>k\<close> from 1 to 5 with the delay \<open>2000 \<times> 2^(k-1)\<close>. At the ceiling \<open>scheduleRetry\<close> keeps
  the counter at 5 and sets the error \<open>Connection lost. Please try refreshing the page.\<close>,
  while the \<open>catch\<close> of \<open>connect\<close> resets the counter to 0.
\<close>

theorem retry_backoff_per_attempt:
  "(retryCountRef s < 5 \<longrightarrow>
      timers (connect_failed m s) = timers s @ [backoff (retryCountRef s + 1)] \<and>
      retryCountRef (connect_failed m s) = retryCountRef s + 1 \<and>
      timers (scheduleRetry True s) =
        (case retryTimeoutRef s of None \<Rightarrow> timers s | Some t \<Rightarrow> remove1 t (timers s)) @
        [backoff (retryCountRef s + 1)] \<and>
      retryCountRef (scheduleRetry True s) = retryCountRef s + 1) \<and>
   (5 \<le> retryCountRef s \<longrightarrow>
      timers (connect_failed m s) = timers s \<and> retryCountRef (connect_failed m s) = 0 \<and>
      timers (scheduleRetry True s) = timers s \<and>
      retryCountRef (scheduleRetry True s) = retryCountRef s \<and>
      error (scheduleRetry True s) =
        Some (ascii ''Connection lost. Please try refreshing the page.'')) \<and>
   tm_callback (backoff k) = RetryConnect k \<and>
   tm_delay (backoff k) = baseRetryDelay * 2 ^ (k - 1) \<and>
   retryCountRef (retry_run events initial_chat) \<le> maxRetries \<and>
   set (timers (retry_run events initial_chat)) \<subseteq> backoff ` {1..maxRetries}"
proof (intro conjI impI)
  assume lt: "retryCountRef s < 5"
  show "timers (connect_failed m s) = timers s @ [backoff (retryCountRef s + 1)]"
    by (simp add: connect_failed_below_ceiling [OF lt])
  show "retryCountRef (connect_failed m s) = retryCountRef s + 1"
    by (simp add: connect_failed_below_ceiling [OF lt])
  show "timers (scheduleRetry True s) =
        (case retryTimeoutRef s of None \<Rightarrow> timers s | Some t \<Rightarrow> remove1 t (timers s)) @
        [backoff (retryCountRef s + 1)]"
    by (simp add: scheduleRetry_below_ceiling [OF lt])
  show "retryCountRef (scheduleRetry True s) = retryCountRef s + 1"
    by (simp add: scheduleRetry_below_ceiling [OF lt])
next
  assume ge: "5 \<le> retryCountRef s"
  show "timers (connect_failed m s) = timers s"
    by (simp add: connect_failed_at_ceiling [OF ge])
  show "retryCountRef (connect_failed m s) = 0"
    by (simp add: connect_failed_at_ceiling [OF ge])
  show "timers (scheduleRetry True s) = timers s"
    by (simp add: scheduleRetry_at_ceiling [OF ge])
  show "retryCountRef (scheduleRetry True s) = retryCountRef s"
    by (simp add: scheduleRetry_at_ceiling [OF ge])
  show "error (scheduleRetry True s) =
        Some (ascii ''Connection lost. Please try refreshing the page.'')"
    by (simp add: scheduleRetry_at_ceiling [OF ge])
next
  show "tm_callback (backoff k) = RetryConnect k"
    by (simp add: backoff_def)
  show "tm_delay (backoff k) = baseRetryDelay * 2 ^ (k - 1)"
    by (simp add: backoff_def baseRetryDelay_def)
next
  have inv: "retry_inv (retry_run events initial_chat)"
    by (rule retry_run_inv [OF retry_inv_initial])
  show "retryCountRef (retry_run events initial_chat) \<le> maxRetries"
    using inv by (simp add: retry_inv_def)
  show "set (timers (retry_run events initial_chat)) \<subseteq> backoff ` {1..maxRetries}"
    using inv by (simp add: retry_inv_def)
qed

theorem retry_backoff_per_attempt_witness:
  "timers (connect_failed None initial_chat) = [backoff 1] \<and>
   tm_delay (backoff 1) = 2000 \<and> tm_delay (backoff 2) = 4000 \<and> tm_delay (backoff 3) = 8000 \<and>
   timers (connect_failed None (initial_chat \<lparr> retryCountRef := 5 \<rparr>)) = [] \<and>
   retryCountRef (connect_failed None (initial_chat \<lparr> retryCountRef := 5 \<rparr>)) = 0 \<and>
   retryCountRef (scheduleRetry True (initial_chat \<lparr> retryCountRef := 5 \<rparr>)) = 5 \<and>
   retryCountRef
     (retry_run [ConnectFails None, ConnectionLost True, ConnectFails None] initial_chat) \<le> 5"
proof -
  let ?s5 = "initial_chat \<lparr> retryCountRef := 5 \<rparr>"
  let ?evs = "[ConnectFails None, ConnectionLost True, ConnectFails None]"
  note low = retry_backoff_per_attempt [of initial_chat None 1 ?evs]
  note high = retry_backoff_per_attempt [of ?s5 None 2 ?evs]
  note third = retry_backoff_per_attempt [of ?s5 None 3 ?evs]
  have a: "retryCountRef initial_chat < 5" and t: "timers initial_chat = []"
    and c: "retryCountRef initial_chat + 1 = 1"
    by (simp_all add: initial_chat_def)
  have b: "5 \<le> retryCountRef ?s5" and t5: "timers ?s5 = []" and c5: "retryCountRef ?s5 = 5"
    by (simp_all add: initial_chat_def)
  have g1: "timers (connect_failed None initial_chat) = [backoff 1]"
    using low a t c by simp
  have d1: "tm_delay (backoff 1) = 2000"
    using low by (simp add: baseRetryDelay_def)
  have d2: "tm_delay (backoff 2) = 4000"
    using high by (simp add: baseRetryDelay_def)
  have d3: "tm_delay (backoff 3) = 8000"
    using third by (simp add: baseRetryDelay_def)
  have g2: "timers (connect_failed None ?s5) = []"
    using high b t5 by simp
  have g3: "retryCountRef (connect_failed None ?s5) = 0"
    using high b by blast
  have g4: "retryCountRef (scheduleRetry True ?s5) = 5"
    using high b c5 by simp
  have g5: "retryCountRef (retry_run ?evs initial_chat) \<le> 5"
    using low by (simp add: maxRetries_def)
  show ?thesis
    using g1 d1 d2 d3 g2 g3 g4 g5 by blast
qed

subsection \<open>Greeting\<close>

definition greetingTrigger :: outbound where
  "greetingTrigger = ConversationItemCreate User (ascii ''Hello'')"








definition triggers_sent :: "voice_chat \<Rightarrow> nat" where
  "triggers_sent s = length (filter (\<lambda>m. m = greetingTrigger) (sent s))"




lemma session_update_not_trigger [simp]: "SessionUpdate x \<noteq> greetingTrigger"
  by (simp add: greetingTrigger_def)













text \<open>A session in which nothing of the greeting has happened and no timer would start it.\<close>

definition silent :: "voice_chat \<Rightarrow> bool" where
  "silent s \<longleftrightarrow>
     \<not> hasGreetedRef s \<and> triggers_sent s = 0 \<and>
     list_all (\<lambda>t. tm_callback t \<noteq> GreetingTrigger \<and> tm_callback t \<noteq> SendGreeting True)
       (timers s)"













end
